theory Spec2Isabelle
  imports Main "HOL-Library.Word"
begin

section \<open>The exile NIF (c\_src/exile.c): data model\<close>

text \<open>
  The theory embeds the per-handle entry points of \<^verbatim>\<open>exile.c\<close>: \<^verbatim>\<open>sys_write\<close>,
  \<^verbatim>\<open>sys_close\<close>, \<^verbatim>\<open>sys_read\<close>, \<^verbatim>\<open>is_alive\<close>, \<^verbatim>\<open>sys_terminate\<close>, \<^verbatim>\<open>sys_kill\<close>,
  \<^verbatim>\<open>sys_wait\<close> and \<^verbatim>\<open>os_pid\<close>, with their helpers \<^verbatim>\<open>make_ok\<close>, \<^verbatim>\<open>make_error\<close>,
  \<^verbatim>\<open>select_write\<close>, \<^verbatim>\<open>select_read\<close> and \<^verbatim>\<open>make_exit_term\<close>.

  Conventions of the embedding.
  \<^item> C \<^verbatim>\<open>int\<close>, \<^verbatim>\<open>pid_t\<close> and \<^verbatim>\<open>ssize_t\<close> values are HOL integers. The functions below
    only compare and copy them; none performs arithmetic, so no wrap-around arises.
  \<^item> The handle argument is the \<^verbatim>\<open>ExecContext\<close> that \<^verbatim>\<open>GET_CTX\<close> has resolved, and
    integer arguments are the values \<^verbatim>\<open>enif_get_int\<close> has stored, so they lie in the
    range of a C \<^verbatim>\<open>int\<close>. The source ignores the result of \<^verbatim>\<open>enif_get_int\<close>: a term it
    refuses (not an integer, or beyond that range) leaves the variable unset, and such a
    call is outside the embedding.
  \<^item> Every answer of the kernel or of the Erlang runtime to a call is read from a
    \<open>sys_reply\<close>; every call issued is appended to the \<open>trace\<close> of the result, in
    program order. The elapsed-time accounting (\<^verbatim>\<open>notify_consumed_timeslice\<close>) and the
    \<^verbatim>\<open>debug\<close> macro (empty unless \<^verbatim>\<open>DEBUG\<close> is defined) are not traced.
  \<^item> Constants and macros of the system headers (\<^verbatim>\<open>errno.h\<close>, \<^verbatim>\<open>signal.h\<close>,
    \<^verbatim>\<open>sys/wait.h\<close>) are fields of a \<open>platform\<close> parameter.
\<close>

subsection \<open>Constants\<close>

definition PIPE_CLOSED :: int where
  "PIPE_CLOSED = -1"

definition CMD_EXIT :: int where
  "CMD_EXIT = -1"

definition UNBUFFERED_READ :: int where
  "UNBUFFERED_READ = -1"

definition PIPE_BUF_SIZE :: int where
  "PIPE_BUF_SIZE = 65535"

text \<open>\<^verbatim>\<open>enum exit_type { NORMAL_EXIT, SIGNALED, STOPPED }\<close>. The field of the context
  is kept as the underlying integer, because \<^verbatim>\<open>make_exit_term\<close> has a \<^verbatim>\<open>default\<close> branch
  for any other value.\<close>

definition NORMAL_EXIT :: int where
  "NORMAL_EXIT = 0"

definition SIGNALED :: int where
  "SIGNALED = 1"

definition STOPPED :: int where
  "STOPPED = 2"

subsection \<open>Erlang terms built by the NIF\<close>

datatype erl_term =
    EAtom string
  | EInt int
  | EBinary "8 word list"
  | ETuple2 erl_term erl_term
  | EBadarg

definition ATOM_TRUE :: erl_term where
  "ATOM_TRUE = EAtom ''true''"

definition ATOM_FALSE :: erl_term where
  "ATOM_FALSE = EAtom ''false''"

definition ATOM_OK :: erl_term where
  "ATOM_OK = EAtom ''ok''"

definition ATOM_ERROR :: erl_term where
  "ATOM_ERROR = EAtom ''error''"

definition ATOM_UNDEFINED :: erl_term where
  "ATOM_UNDEFINED = EAtom ''undefined''"

definition ATOM_PIPE_CLOSED :: erl_term where
  "ATOM_PIPE_CLOSED = EAtom ''closed_pipe''"

definition ATOM_EAGAIN :: erl_term where
  "ATOM_EAGAIN = EAtom ''eagain''"

definition ATOM_EXIT :: erl_term where
  "ATOM_EXIT = EAtom ''exit''"

definition ATOM_SIGNALED :: erl_term where
  "ATOM_SIGNALED = EAtom ''signaled''"

definition ATOM_STOPPED :: erl_term where
  "ATOM_STOPPED = EAtom ''stopped''"

definition make_ok :: "erl_term \<Rightarrow> erl_term" where
  "make_ok t = ETuple2 ATOM_OK t"

definition make_error :: "erl_term \<Rightarrow> erl_term" where
  "make_error t = ETuple2 ATOM_ERROR t"

subsection \<open>The handle\<close>

text \<open>\<^verbatim>\<open>struct ExecContext\<close>. The two \<^verbatim>\<open>enif_select\<close> resource objects are never
  reassigned after \<^verbatim>\<open>execute\<close>; a call that passes one of them names it in the trace.\<close>

record ExecContext =
  cmd_input_fd :: int
  cmd_output_fd :: int
  exit_status :: int
  exit_type :: int
  pid :: int

datatype io_resource = read_resource | write_resource

datatype select_mode = ERL_NIF_SELECT_READ | ERL_NIF_SELECT_WRITE | ERL_NIF_SELECT_STOP

subsection \<open>Calls issued, and the replies to them\<close>

datatype event =
    SysWrite int nat
  | SysRead int int
  | BufAlloc int
  | SysClose int
  | SysKill int int
  | SysWaitpid int
  | Select int select_mode io_resource
  | Perror string
  | ErrorMsg string

text \<open>
  \<open>SysWrite fd n\<close>: \<^verbatim>\<open>write(fd, bin.data, n)\<close>; \<open>SysRead fd n\<close>: \<^verbatim>\<open>read(fd, buf, n)\<close>;
  \<open>BufAlloc n\<close>: the declaration \<^verbatim>\<open>unsigned char buf[n]\<close>; \<open>SysKill p s\<close>:
  \<^verbatim>\<open>kill(p, s)\<close>; \<open>SysWaitpid p\<close>: \<^verbatim>\<open>waitpid(p, &status, WNOHANG)\<close>;
  \<open>Select fd m r\<close>: \<^verbatim>\<open>enif_select(env, fd, m, r, NULL, ATOM_UNDEFINED)\<close>;
  \<open>Perror\<close> and \<open>ErrorMsg\<close>: the \<^verbatim>\<open>perror\<close> call and the \<^verbatim>\<open>error\<close> macro.
\<close>

record sys_reply =
  write_ret :: int
  read_ret :: int
  read_buf :: "8 word list"
  io_errno :: int
  select_ret :: int
  close_ret :: int
  errno_after_perror :: int
  kill_ret :: int
  waitpid_ret :: int
  waitpid_status :: int

text \<open>
  \<open>write_ret\<close>, \<open>read_ret\<close>: what \<^verbatim>\<open>write\<close>, \<^verbatim>\<open>read\<close> return; \<open>io_errno\<close>: \<^verbatim>\<open>errno\<close>
  read right after; \<open>read_buf\<close>: the contents of \<^verbatim>\<open>buf\<close> after \<^verbatim>\<open>read\<close>;
  \<open>select_ret\<close>: what \<^verbatim>\<open>enif_select\<close> returns to \<^verbatim>\<open>select_write\<close> or
  \<^verbatim>\<open>select_read\<close>; \<open>close_ret\<close>: what \<^verbatim>\<open>close\<close> returns;
  \<open>errno_after_perror\<close>: the value of \<^verbatim>\<open>errno\<close> once the \<^verbatim>\<open>perror\<close> call in a failure
  branch of \<^verbatim>\<open>sys_close\<close> has returned (\<^verbatim>\<open>perror\<close> may change \<^verbatim>\<open>errno\<close>, so this need not
  be the value \<^verbatim>\<open>close\<close> set); \<open>kill_ret\<close>: what \<^verbatim>\<open>kill\<close> returns; \<open>waitpid_ret\<close>: what \<^verbatim>\<open>waitpid\<close>
  returns; \<open>waitpid_status\<close>: the value of \<^verbatim>\<open>status\<close> after \<^verbatim>\<open>waitpid\<close> (it is
  initialised to 0 before the call).
\<close>

record platform =
  EAGAIN :: int
  EWOULDBLOCK :: int
  SIGTERM :: int
  SIGKILL :: int
  WIFEXITED :: "int \<Rightarrow> bool"
  WEXITSTATUS :: "int \<Rightarrow> int"
  WIFSIGNALED :: "int \<Rightarrow> bool"
  WTERMSIG :: "int \<Rightarrow> int"
  WIFSTOPPED :: "int \<Rightarrow> bool"

text \<open>What one NIF call leaves behind: the term it returns, whether
  \<^verbatim>\<open>enif_make_badarg\<close> was invoked on the environment during the call, the context
  after the call, and the calls it issued.\<close>

record nif_result =
  ret :: erl_term
  badarg_raised :: bool
  ctx_after :: ExecContext
  trace :: "event list"

text \<open>The second argument of \<^verbatim>\<open>sys_write\<close>: \<^verbatim>\<open>enif_inspect_binary\<close> succeeds on a
  binary (and gives its bytes) and fails on any other term.\<close>

datatype payload = IsBinary "8 word list" | NotBinary

section \<open>The operations\<close>

definition returning :: "erl_term \<Rightarrow> ExecContext \<Rightarrow> event list \<Rightarrow> nif_result" where
  "returning t c tr = \<lparr>ret = t, badarg_raised = False, ctx_after = c, trace = tr\<rparr>"

text \<open>\<^verbatim>\<open>return enif_make_badarg(env);\<close>\<close>

definition return_badarg :: "ExecContext \<Rightarrow> event list \<Rightarrow> nif_result" where
  "return_badarg c tr = \<lparr>ret = EBadarg, badarg_raised = True, ctx_after = c, trace = tr\<rparr>"

subsection \<open>Pipe I/O\<close>

text \<open>\<^verbatim>\<open>select_write\<close> and \<^verbatim>\<open>select_read\<close> return \<^verbatim>\<open>retval\<close> and the calls made.\<close>

definition select_write :: "sys_reply \<Rightarrow> ExecContext \<Rightarrow> int \<times> event list" where
  "select_write os c =
     (let retval = select_ret os in
      (retval,
       Select (cmd_input_fd c) ERL_NIF_SELECT_WRITE write_resource #
         (if retval \<noteq> 0 then [Perror ''select_write()''] else [])))"

definition select_read :: "sys_reply \<Rightarrow> ExecContext \<Rightarrow> int \<times> event list" where
  "select_read os c =
     (let retval = select_ret os in
      (retval,
       Select (cmd_output_fd c) ERL_NIF_SELECT_READ read_resource #
         (if retval \<noteq> 0 then [Perror ''select_read()''] else [])))"

text \<open>\<^verbatim>\<open>sys_write\<close>. The NIF is registered with arity 2, so \<^verbatim>\<open>argc != 2\<close> is false.\<close>

definition sys_write :: "platform \<Rightarrow> sys_reply \<Rightarrow> ExecContext \<Rightarrow> payload \<Rightarrow> nif_result" where
  "sys_write pf os c arg =
     (if cmd_input_fd c = PIPE_CLOSED then returning (make_error ATOM_PIPE_CLOSED) c []
      else case arg of
        NotBinary \<Rightarrow> return_badarg c []
      | IsBinary bin \<Rightarrow>
          if length bin = 0 then return_badarg c []
          else
            let result = write_ret os;
                write_errno = io_errno os;
                tr = [SysWrite (cmd_input_fd c) (length bin)]
            in
              if result \<ge> int (length bin) then returning (make_ok (EInt result)) c tr
              else if result \<ge> 0 then
                (case select_write os c of (retval, sel) \<Rightarrow>
                   if retval \<noteq> 0 then returning (make_error (EInt retval)) c (tr @ sel)
                   else returning (make_ok (EInt result)) c (tr @ sel))
              else if write_errno = EAGAIN pf \<or> write_errno = EWOULDBLOCK pf then
                (case select_write os c of (retval, sel) \<Rightarrow>
                   if retval \<noteq> 0 then returning (make_error (EInt retval)) c (tr @ sel)
                   else returning (make_error ATOM_EAGAIN) c (tr @ sel))
              else returning (make_error (EInt write_errno)) c (tr @ [Perror ''write()'']))"

text \<open>\<^verbatim>\<open>sys_read\<close>. In the branch \<^verbatim>\<open>request < 1\<close> the source calls
  \<^verbatim>\<open>enif_make_badarg(env)\<close> as a statement, without \<^verbatim>\<open>return\<close>: the call only marks the
  environment, \<^verbatim>\<open>size\<close> keeps the value of \<^verbatim>\<open>request\<close>, and control goes on to the
  declaration of \<^verbatim>\<open>buf\<close> and to \<^verbatim>\<open>read\<close>. \<open>read_size\<close> is the value of \<^verbatim>\<open>size\<close> after the
  \<^verbatim>\<open>if\<close> chain and \<open>read_badarg\<close> tells whether the chain called \<^verbatim>\<open>enif_make_badarg\<close>.\<close>

definition read_size :: "int \<Rightarrow> int" where
  "read_size request =
     (if request = UNBUFFERED_READ then PIPE_BUF_SIZE
      else if request < 1 then request
      else if request > PIPE_BUF_SIZE then PIPE_BUF_SIZE
      else request)"

definition read_badarg :: "int \<Rightarrow> bool" where
  "read_badarg request =
     (if request = UNBUFFERED_READ then False
      else if request < 1 then True
      else False)"

definition sys_read :: "platform \<Rightarrow> sys_reply \<Rightarrow> ExecContext \<Rightarrow> int \<Rightarrow> nif_result" where
  "sys_read pf os c request =
     (if cmd_output_fd c = PIPE_CLOSED then returning (make_error ATOM_PIPE_CLOSED) c []
      else
        let size = read_size request;
            raised = read_badarg request;
            result = read_ret os;
            read_errno = io_errno os;
            bin_term = EBinary (take (nat result) (read_buf os));
            tr = [BufAlloc size, SysRead (cmd_output_fd c) size]
        in
          (if result \<ge> 0 then
             (if result = request \<or> result = 0 \<or> request = UNBUFFERED_READ
              then returning (make_ok bin_term) c tr
              else
                (case select_read os c of (retval, sel) \<Rightarrow>
                   if retval \<noteq> 0 then returning (make_error (EInt retval)) c (tr @ sel)
                   else returning (make_ok bin_term) c (tr @ sel)))
           else
             (if read_errno = EAGAIN pf \<or> read_errno = EWOULDBLOCK pf then
                (case select_read os c of (retval, sel) \<Rightarrow>
                   if retval \<noteq> 0 then returning (make_error (EInt retval)) c (tr @ sel)
                   else returning (make_error ATOM_EAGAIN) c (tr @ sel))
              else returning (make_error (EInt read_errno)) c (tr @ [Perror ''read()''])))
          \<lparr>badarg_raised := raised\<rparr>)"

subsection \<open>Closing a direction\<close>

text \<open>\<^verbatim>\<open>sys_close\<close>. Where \<^verbatim>\<open>close\<close> fails, the source first calls \<^verbatim>\<open>perror\<close> and only then
  evaluates \<^verbatim>\<open>errno\<close> for the term it returns (unlike \<^verbatim>\<open>sys_write\<close> and \<^verbatim>\<open>sys_read\<close>,
  which save \<^verbatim>\<open>errno\<close> right after the syscall): the integer returned is
  \<open>errno_after_perror\<close>.\<close>

definition sys_close :: "platform \<Rightarrow> sys_reply \<Rightarrow> ExecContext \<Rightarrow> int \<Rightarrow> nif_result" where
  "sys_close pf os c kind =
     (if kind = 0 then
        (if cmd_input_fd c = PIPE_CLOSED then returning ATOM_OK c []
         else
           let tr = [Select (cmd_input_fd c) ERL_NIF_SELECT_STOP write_resource,
                     SysClose (cmd_input_fd c)]
           in if close_ret os = 0
              then returning ATOM_OK (c\<lparr>cmd_input_fd := PIPE_CLOSED\<rparr>) tr
              else returning (make_error (EInt (errno_after_perror os))) c
                     (tr @ [Perror ''cmd_input_fd close()'']))
      else if kind = 1 then
        (if cmd_output_fd c = PIPE_CLOSED then returning ATOM_OK c []
         else
           let tr = [Select (cmd_output_fd c) ERL_NIF_SELECT_STOP read_resource,
                     SysClose (cmd_output_fd c)]
           in if close_ret os = 0
              then returning ATOM_OK (c\<lparr>cmd_output_fd := PIPE_CLOSED\<rparr>) tr
              else returning (make_error (EInt (errno_after_perror os))) c
                     (tr @ [Perror ''cmd_output_fd close()'']))
      else return_badarg c [])"

subsection \<open>Process lifecycle\<close>

definition is_alive :: "platform \<Rightarrow> sys_reply \<Rightarrow> ExecContext \<Rightarrow> nif_result" where
  "is_alive pf os c =
     (if pid c = CMD_EXIT then returning (make_ok ATOM_TRUE) c []
      else
        let result = kill_ret os
        in if result = 0 then returning (make_ok ATOM_TRUE) c [SysKill (pid c) 0]
           else returning (make_ok ATOM_FALSE) c [SysKill (pid c) 0])"

definition sys_terminate :: "platform \<Rightarrow> sys_reply \<Rightarrow> ExecContext \<Rightarrow> nif_result" where
  "sys_terminate pf os c =
     (if pid c = CMD_EXIT then returning (make_ok (EInt 0)) c []
      else returning (make_ok (EInt (kill_ret os))) c [SysKill (pid c) (SIGTERM pf)])"

definition sys_kill :: "platform \<Rightarrow> sys_reply \<Rightarrow> ExecContext \<Rightarrow> nif_result" where
  "sys_kill pf os c =
     (if pid c = CMD_EXIT then returning (make_ok (EInt 0)) c []
      else returning (make_ok (EInt (kill_ret os))) c [SysKill (pid c) (SIGKILL pf)])"

definition make_exit_term :: "ExecContext \<Rightarrow> erl_term \<times> event list" where
  "make_exit_term c =
     (if exit_type c = NORMAL_EXIT then
        (make_ok (ETuple2 ATOM_EXIT (EInt (exit_status c))), [])
      else if exit_type c = SIGNALED then
        (make_ok (ETuple2 ATOM_SIGNALED (EInt (exit_status c))), [])
      else if exit_type c = STOPPED then
        (make_ok (ETuple2 ATOM_STOPPED (EInt (exit_status c))), [])
      else (make_error ATOM_UNDEFINED, [ErrorMsg ''Invalid wait status'']))"

definition sys_wait :: "platform \<Rightarrow> sys_reply \<Rightarrow> ExecContext \<Rightarrow> nif_result" where
  "sys_wait pf os c =
     (if pid c = CMD_EXIT then
        (case make_exit_term c of (t, tr) \<Rightarrow> returning t c tr)
      else
        let status = waitpid_status os;
            wpid = waitpid_ret os;
            tr = [SysWaitpid (pid c)]
        in
          if wpid = pid c then
            (let c1 = c\<lparr>pid := CMD_EXIT\<rparr>;
                 c2 = (if WIFEXITED pf status then
                         c1\<lparr>exit_type := NORMAL_EXIT, exit_status := WEXITSTATUS pf status\<rparr>
                       else if WIFSIGNALED pf status then
                         c1\<lparr>exit_type := SIGNALED, exit_status := WTERMSIG pf status\<rparr>
                       else if WIFSTOPPED pf status then
                         c1\<lparr>exit_type := STOPPED, exit_status := 0\<rparr>
                       else c1)
             in case make_exit_term c2 of (t, tr') \<Rightarrow> returning t c2 (tr @ tr'))
          else
            returning (make_error (ETuple2 (EInt wpid) (EInt status))) c
              (tr @ (if wpid \<noteq> 0 then [Perror ''waitpid()''] else [])))"

definition os_pid :: "platform \<Rightarrow> sys_reply \<Rightarrow> ExecContext \<Rightarrow> nif_result" where
  "os_pid pf os c =
     (if pid c = CMD_EXIT then returning (make_ok (EInt 0)) c []
      else returning (make_ok (EInt (pid c))) c [])"

subsection \<open>Sequences of calls on one handle\<close>

text \<open>The entries of \<^verbatim>\<open>nif_funcs\<close> that take a handle, with their decoded arguments.\<close>

datatype nif_call =
    CallWrite payload
  | CallRead int
  | CallClose int
  | CallTerminate
  | CallWait
  | CallKill
  | CallAlive
  | CallOsPid

fun nif :: "platform \<Rightarrow> nif_call \<Rightarrow> sys_reply \<Rightarrow> ExecContext \<Rightarrow> nif_result" where
  "nif pf (CallWrite b) os c = sys_write pf os c b"
| "nif pf (CallRead n) os c = sys_read pf os c n"
| "nif pf (CallClose k) os c = sys_close pf os c k"
| "nif pf CallTerminate os c = sys_terminate pf os c"
| "nif pf CallWait os c = sys_wait pf os c"
| "nif pf CallKill os c = sys_kill pf os c"
| "nif pf CallAlive os c = is_alive pf os c"
| "nif pf CallOsPid os c = os_pid pf os c"

text \<open>\<open>run\<close> performs the calls one after the other on the same handle, each with the
  replies the system gives during that call, and lists the results in order.\<close>

fun run :: "platform \<Rightarrow> ExecContext \<Rightarrow> (nif_call \<times> sys_reply) list \<Rightarrow> nif_result list" where
  "run pf c [] = []"
| "run pf c ((call, os) # rest) =
     (let r = nif pf call os c in r # run pf (ctx_after r) rest)"

subsection \<open>A concrete platform and sample values\<close>

text \<open>The values of Linux on x86-64 with glibc, used where a theorem is evaluated at a
  concrete input: \<^verbatim>\<open>EAGAIN = EWOULDBLOCK = 11\<close>, \<^verbatim>\<open>SIGTERM = 15\<close>, \<^verbatim>\<open>SIGKILL = 9\<close>, and
  the wait status with the terminating signal in its low 7 bits and the exit code in
  bits 8 to 15.\<close>

definition linux :: platform where
  "linux = \<lparr>EAGAIN = 11, EWOULDBLOCK = 11, SIGTERM = 15, SIGKILL = 9,
     WIFEXITED = (\<lambda>s. s mod 128 = 0),
     WEXITSTATUS = (\<lambda>s. (s div 256) mod 256),
     WIFSIGNALED = (\<lambda>s. s mod 128 \<noteq> 0 \<and> s mod 128 \<noteq> 127),
     WTERMSIG = (\<lambda>s. s mod 128),
     WIFSTOPPED = (\<lambda>s. s mod 256 = 127)\<rparr>"

text \<open>A handle as \<^verbatim>\<open>execute\<close> leaves it: both pipe ends open, a live pid.\<close>

definition ctx0 :: ExecContext where
  "ctx0 = \<lparr>cmd_input_fd = 7, cmd_output_fd = 8, exit_status = 0, exit_type = 0, pid = 4242\<rparr>"

text \<open>Replies in which every call succeeds: \<^verbatim>\<open>write\<close> and \<^verbatim>\<open>read\<close> transfer 3 bytes.\<close>

definition reply0 :: sys_reply where
  "reply0 = \<lparr>write_ret = 3, read_ret = 3, read_buf = [1, 2, 3], io_errno = 0,
     select_ret = 0, close_ret = 0, errno_after_perror = 0, kill_ret = 0,
     waitpid_ret = 0, waitpid_status = 0\<rparr>"

text \<open>The replies of a reap that finds the child killed by signal 9, and replies in which
  \<^verbatim>\<open>kill\<close> and \<^verbatim>\<open>waitpid\<close> fail.\<close>

definition reap9 :: sys_reply where
  "reap9 = reply0\<lparr>waitpid_ret := 4242, waitpid_status := 9\<rparr>"

definition hostile :: sys_reply where
  "hostile = reply0\<lparr>close_ret := - 1, errno_after_perror := 22, kill_ret := - 1,
     waitpid_ret := - 1, waitpid_status := 0\<rparr>"

text \<open>Replies in which \<^verbatim>\<open>write\<close> and \<^verbatim>\<open>read\<close> fail, with \<^verbatim>\<open>EAGAIN\<close> (11) and with
  \<^verbatim>\<open>EPIPE\<close> (32).\<close>

definition busy :: sys_reply where
  "busy = reply0\<lparr>write_ret := - 1, read_ret := - 1, io_errno := 11\<rparr>"

definition broken :: sys_reply where
  "broken = reply0\<lparr>write_ret := - 1, read_ret := - 1, io_errno := 32\<rparr>"

subsection \<open>Reading a trace\<close>

text \<open>A readiness registration is an \<^verbatim>\<open>enif_select\<close> call in read or write mode
  (\<^verbatim>\<open>ERL_NIF_SELECT_STOP\<close> removes one).\<close>

fun is_registration :: "event \<Rightarrow> bool" where
  "is_registration (Select fd m r) = (m \<noteq> ERL_NIF_SELECT_STOP)"
| "is_registration _ = False"

fun is_read :: "event \<Rightarrow> bool" where
  "is_read (SysRead fd n) = True"
| "is_read _ = False"

fun is_buf :: "event \<Rightarrow> bool" where
  "is_buf (BufAlloc n) = True"
| "is_buf _ = False"

fun is_kill :: "event \<Rightarrow> bool" where
  "is_kill (SysKill p s) = True"
| "is_kill _ = False"

section \<open>Properties\<close>

lemmas consts_defs = PIPE_CLOSED_def CMD_EXIT_def UNBUFFERED_READ_def PIPE_BUF_SIZE_def
  NORMAL_EXIT_def SIGNALED_def STOPPED_def

lemmas atom_defs = ATOM_TRUE_def ATOM_FALSE_def ATOM_OK_def ATOM_ERROR_def ATOM_UNDEFINED_def
  ATOM_PIPE_CLOSED_def ATOM_EAGAIN_def ATOM_EXIT_def ATOM_SIGNALED_def ATOM_STOPPED_def
  make_ok_def make_error_def

lemmas sample_defs = linux_def ctx0_def reply0_def reap9_def hostile_def busy_def broken_def

lemmas op_defs = sys_write_def sys_read_def sys_close_def is_alive_def sys_terminate_def
  sys_kill_def sys_wait_def os_pid_def make_exit_term_def select_write_def select_read_def
  returning_def return_badarg_def read_size_def read_badarg_def

subsection \<open>Liveness query\<close>

lemma is_alive_reaped:
  "pid c = CMD_EXIT \<Longrightarrow> is_alive pf os c = returning (make_ok ATOM_TRUE) c []"
  by (simp add: is_alive_def)

lemma is_alive_probe:
  "pid c \<noteq> CMD_EXIT \<Longrightarrow>
   is_alive pf os c =
     returning (make_ok (if kill_ret os = 0 then ATOM_TRUE else ATOM_FALSE)) c [SysKill (pid c) 0]"
  by (simp add: is_alive_def Let_def)

text \<open>
  C1. The claim: on a handle whose process has been reaped, \<^verbatim>\<open>is_alive\<close> returns
  \<open>{ok, false}\<close>. The source returns \<open>{ok, true}\<close> there: the guard
  \<^verbatim>\<open>ctx->pid == CMD_EXIT\<close> answers \<^verbatim>\<open>ATOM_TRUE\<close>. Evaluated on the handle left by a
  \<^verbatim>\<open>sys_wait\<close> that reaped child 4242 with wait status 1792 (exit code 7): the wait
  returns \<open>{ok, {exit, 7}}\<close> and marks the pid, and the liveness query that follows
  returns \<open>{ok, true}\<close>, not \<open>{ok, false}\<close>, without probing. (The un-reaped half of the
  claim is \<open>is_alive_probe\<close>.)
\<close>

theorem is_alive_true_after_reap:
  "pid (ctx_after (sys_wait linux (reply0\<lparr>waitpid_ret := 4242, waitpid_status := 1792\<rparr>) ctx0))
     = CMD_EXIT
   \<and> ret (sys_wait linux (reply0\<lparr>waitpid_ret := 4242, waitpid_status := 1792\<rparr>) ctx0)
     = make_ok (ETuple2 ATOM_EXIT (EInt 7))
   \<and> ret (is_alive linux reply0
        (ctx_after (sys_wait linux (reply0\<lparr>waitpid_ret := 4242, waitpid_status := 1792\<rparr>) ctx0)))
     = make_ok ATOM_TRUE
   \<and> ret (is_alive linux reply0
        (ctx_after (sys_wait linux (reply0\<lparr>waitpid_ret := 4242, waitpid_status := 1792\<rparr>) ctx0)))
     \<noteq> make_ok ATOM_FALSE
   \<and> trace (is_alive linux reply0
        (ctx_after (sys_wait linux (reply0\<lparr>waitpid_ret := 4242, waitpid_status := 1792\<rparr>) ctx0)))
     = []"
  by (simp add: sys_wait_def is_alive_def make_exit_term_def returning_def consts_defs atom_defs
      linux_def ctx0_def reply0_def)

subsection \<open>The size of a read\<close>

text \<open>
  C2, as stated: the cap on the size of a read, and the buffer size of an unbuffered
  read, is 65536 bytes. Counterexample: a request of 65536 bytes issues
  \<^verbatim>\<open>read(fd, buf, 65535)\<close>, and an unbuffered read declares a buffer of 65535 bytes;
  neither trace holds a 65536.
\<close>

theorem read_cap_not_65536:
  "trace (sys_read linux reply0 ctx0 65536) =
     [BufAlloc 65535, SysRead 8 65535, Select 8 ERL_NIF_SELECT_READ read_resource]
   \<and> SysRead 8 65536 \<notin> set (trace (sys_read linux reply0 ctx0 65536))
   \<and> trace (sys_read linux reply0 ctx0 UNBUFFERED_READ) = [BufAlloc 65535, SysRead 8 65535]
   \<and> BufAlloc 65536 \<notin> set (trace (sys_read linux reply0 ctx0 UNBUFFERED_READ))"
  by (simp add: op_defs consts_defs linux_def ctx0_def reply0_def)

text \<open>
  C2, amended: on an open output direction, a read with a positive requested size
  that a C \<^verbatim>\<open>int\<close> holds (at most 2147483647) issues exactly one \<^verbatim>\<open>read\<close>, of
  \<open>min request 65535\<close> bytes, into a buffer of that size, however large the request is
  within that range; an unbuffered read issues one \<^verbatim>\<open>read\<close> of 65535 bytes into a
  buffer of 65535 bytes. The cap \<^verbatim>\<open>PIPE_BUF_SIZE\<close> is 65535. (A size beyond 2147483647
  is refused by \<^verbatim>\<open>enif_get_int\<close>, whose failure the source ignores; the statement does
  not cover it.)
\<close>

theorem read_cap_is_65535:
  assumes "cmd_output_fd c \<noteq> PIPE_CLOSED"
  shows "(1 \<le> request \<and> request \<le> 2147483647 \<longrightarrow>
           filter is_read (trace (sys_read pf os c request)) =
             [SysRead (cmd_output_fd c) (min request 65535)] \<and>
           filter is_buf (trace (sys_read pf os c request)) = [BufAlloc (min request 65535)])
         \<and> filter is_read (trace (sys_read pf os c UNBUFFERED_READ)) =
             [SysRead (cmd_output_fd c) 65535]
         \<and> filter is_buf (trace (sys_read pf os c UNBUFFERED_READ)) = [BufAlloc 65535]
         \<and> PIPE_BUF_SIZE = 65535"
  using assms
  by (simp add: sys_read_def select_read_def returning_def read_size_def consts_defs min_def
      Let_def split: prod.splits)

text \<open>Witness for C2 (amended): requests of 70000, of 100 and of 2147483647 bytes on the
  sample handle.\<close>

theorem read_cap_is_65535_witness:
  "cmd_output_fd ctx0 \<noteq> PIPE_CLOSED \<and> (1::int) \<le> 70000 \<and> (70000::int) \<le> 2147483647
   \<and> filter is_read (trace (sys_read linux reply0 ctx0 70000)) = [SysRead 8 65535]
   \<and> filter is_buf (trace (sys_read linux reply0 ctx0 70000)) = [BufAlloc 65535]
   \<and> filter is_read (trace (sys_read linux reply0 ctx0 100)) = [SysRead 8 100]
   \<and> filter is_read (trace (sys_read linux reply0 ctx0 2147483647)) = [SysRead 8 65535]
   \<and> filter is_buf (trace (sys_read linux reply0 ctx0 2147483647)) = [BufAlloc 65535]"
proof -
  have h: "cmd_output_fd ctx0 \<noteq> PIPE_CLOSED"
    by (simp add: ctx0_def PIPE_CLOSED_def)
  show ?thesis
    using h read_cap_is_65535 [OF h, of 70000 linux reply0]
      read_cap_is_65535 [OF h, of 100 linux reply0]
      read_cap_is_65535 [OF h, of 2147483647 linux reply0]
    by (simp add: ctx0_def)
qed

subsection \<open>A reaped handle stays reaped\<close>

lemma make_exit_term_fields:
  "exit_type a = exit_type b \<Longrightarrow> exit_status a = exit_status b \<Longrightarrow>
   make_exit_term a = make_exit_term b"
  by (simp add: make_exit_term_def)

text \<open>No entry point changes the pid or the recorded exit of a reaped handle.\<close>

lemma nif_keeps_lifecycle:
  assumes "pid c = CMD_EXIT"
  shows "pid (ctx_after (nif pf call os c)) = CMD_EXIT
       \<and> exit_type (ctx_after (nif pf call os c)) = exit_type c
       \<and> exit_status (ctx_after (nif pf call os c)) = exit_status c"
proof (cases call)
  case (CallWrite b)
  then show ?thesis using assms
    by (simp add: sys_write_def select_write_def returning_def return_badarg_def Let_def
        split: payload.splits)
next
  case (CallRead n)
  then show ?thesis using assms
    by (simp add: sys_read_def select_read_def returning_def Let_def)
next
  case (CallClose k)
  then show ?thesis using assms
    by (simp add: sys_close_def returning_def return_badarg_def Let_def)
next
  case CallTerminate
  then show ?thesis using assms by (simp add: sys_terminate_def returning_def)
next
  case CallWait
  then show ?thesis using assms
    by (simp add: sys_wait_def returning_def split: prod.splits)
next
  case CallKill
  then show ?thesis using assms by (simp add: sys_kill_def returning_def)
next
  case CallAlive
  then show ?thesis using assms by (simp add: is_alive_def returning_def)
next
  case CallOsPid
  then show ?thesis using assms by (simp add: os_pid_def returning_def)
qed

lemma wait_when_reaped:
  assumes "pid c = CMD_EXIT"
  shows "ret (sys_wait pf os c) = fst (make_exit_term c)"
    and "trace (sys_wait pf os c) = snd (make_exit_term c)"
  using assms by (simp_all add: sys_wait_def returning_def split: prod.splits)

lemma signal_when_reaped:
  assumes "pid c = CMD_EXIT"
  shows "sys_terminate pf os c = returning (make_ok (EInt 0)) c []"
    and "sys_kill pf os c = returning (make_ok (EInt 0)) c []"
  using assms by (simp_all add: sys_terminate_def sys_kill_def)

lemma nif_when_reaped:
  assumes "pid c = CMD_EXIT"
  shows "(call = CallWait \<longrightarrow>
            ret (nif pf call os c) = fst (make_exit_term c) \<and>
            trace (nif pf call os c) = snd (make_exit_term c))
       \<and> (call = CallTerminate \<or> call = CallKill \<longrightarrow>
            ret (nif pf call os c) = make_ok (EInt 0) \<and> trace (nif pf call os c) = [])"
  by (cases call)
     (simp_all add: wait_when_reaped [OF assms] signal_when_reaped [OF assms] returning_def)

lemma run_nth_0: "run pf c ((call, os) # rest) ! 0 = nif pf call os c"
  by (simp add: Let_def)

lemma run_nth_Suc:
  "run pf c ((call, os) # rest) ! Suc j = run pf (ctx_after (nif pf call os c)) rest ! j"
  by (simp add: Let_def)

lemma run_reaped:
  assumes "pid c = CMD_EXIT" and "i < length calls"
  shows "pid (ctx_after (run pf c calls ! i)) = CMD_EXIT
       \<and> exit_type (ctx_after (run pf c calls ! i)) = exit_type c
       \<and> exit_status (ctx_after (run pf c calls ! i)) = exit_status c
       \<and> (fst (calls ! i) = CallWait \<longrightarrow>
            ret (run pf c calls ! i) = fst (make_exit_term c) \<and>
            trace (run pf c calls ! i) = snd (make_exit_term c))
       \<and> (fst (calls ! i) = CallTerminate \<or> fst (calls ! i) = CallKill \<longrightarrow>
            ret (run pf c calls ! i) = make_ok (EInt 0) \<and> trace (run pf c calls ! i) = [])"
  using assms
proof (induction calls arbitrary: c i)
  case Nil
  then show ?case by simp
next
  case (Cons p rest)
  obtain call os where p: "p = (call, os)" by (cases p)
  let ?r = "nif pf call os c"
  note keep = nif_keeps_lifecycle [OF Cons.prems(1), of pf call os]
  show ?case
  proof (cases i)
    case 0
    have "(p # rest) ! i = (call, os)" using 0 p by simp
    moreover have "run pf c (p # rest) ! i = ?r" unfolding p 0 by (rule run_nth_0)
    ultimately show ?thesis
      using keep nif_when_reaped [OF Cons.prems(1), of call pf os] by simp
  next
    case (Suc j)
    then have j: "j < length rest" using Cons.prems(2) by simp
    have reaped: "pid (ctx_after ?r) = CMD_EXIT" using keep by simp
    have eq: "make_exit_term (ctx_after ?r) = make_exit_term c"
      by (rule make_exit_term_fields) (simp_all add: keep)
    have at_i: "(p # rest) ! i = rest ! j" using Suc by simp
    have run_i: "run pf c (p # rest) ! i = run pf (ctx_after ?r) rest ! j"
      unfolding p Suc by (rule run_nth_Suc)
    show ?thesis
      unfolding at_i run_i using Cons.IH [OF reaped j] keep eq by simp
  qed
qed

text \<open>What a reap records: the branch \<^verbatim>\<open>wpid == ctx->pid\<close> with one of the three status
  macros true.\<close>

lemma reap_records:
  assumes "pid c \<noteq> CMD_EXIT" and "waitpid_ret os = pid c"
    and "WIFEXITED pf (waitpid_status os) \<or> WIFSIGNALED pf (waitpid_status os)
         \<or> WIFSTOPPED pf (waitpid_status os)"
  shows "pid (ctx_after (sys_wait pf os c)) = CMD_EXIT"
    and "make_exit_term (ctx_after (sys_wait pf os c)) = (ret (sys_wait pf os c), [])"
    and "ret (sys_wait pf os c) =
          (if WIFEXITED pf (waitpid_status os)
           then make_ok (ETuple2 ATOM_EXIT (EInt (WEXITSTATUS pf (waitpid_status os))))
           else if WIFSIGNALED pf (waitpid_status os)
           then make_ok (ETuple2 ATOM_SIGNALED (EInt (WTERMSIG pf (waitpid_status os))))
           else make_ok (ETuple2 ATOM_STOPPED (EInt 0)))"
    and "trace (sys_wait pf os c) = [SysWaitpid (pid c)]"
  using assms
  by (auto simp add: sys_wait_def make_exit_term_def returning_def Let_def
        NORMAL_EXIT_def SIGNALED_def STOPPED_def)

text \<open>
  C3. Let a \<^verbatim>\<open>sys_wait\<close> on an un-reaped handle see \<^verbatim>\<open>waitpid\<close> return the child's pid
  with a status that is an exit, a signal or a stop. Then the call returns that
  classification and leaves the pid at \<^verbatim>\<open>CMD_EXIT\<close>; and in every sequence of later calls
  on the handle, whatever the system replies, after the \<open>i\<close>-th call the pid is still
  \<^verbatim>\<open>CMD_EXIT\<close>, a call that is a wait returns the same classification and issues nothing
  (no \<^verbatim>\<open>waitpid\<close>), and a call that is a terminate or a kill returns \<open>{ok, 0}\<close> and issues
  nothing (no signal).
\<close>

theorem reaped_is_final:
  assumes "pid c \<noteq> CMD_EXIT" and "waitpid_ret os = pid c"
    and "WIFEXITED pf (waitpid_status os) \<or> WIFSIGNALED pf (waitpid_status os)
         \<or> WIFSTOPPED pf (waitpid_status os)"
    and "i < length calls"
  shows "pid (ctx_after (sys_wait pf os c)) = CMD_EXIT
       \<and> ret (sys_wait pf os c) =
          (if WIFEXITED pf (waitpid_status os)
           then make_ok (ETuple2 ATOM_EXIT (EInt (WEXITSTATUS pf (waitpid_status os))))
           else if WIFSIGNALED pf (waitpid_status os)
           then make_ok (ETuple2 ATOM_SIGNALED (EInt (WTERMSIG pf (waitpid_status os))))
           else make_ok (ETuple2 ATOM_STOPPED (EInt 0)))
       \<and> pid (ctx_after (run pf (ctx_after (sys_wait pf os c)) calls ! i)) = CMD_EXIT
       \<and> (fst (calls ! i) = CallWait \<longrightarrow>
            ret (run pf (ctx_after (sys_wait pf os c)) calls ! i) = ret (sys_wait pf os c) \<and>
            trace (run pf (ctx_after (sys_wait pf os c)) calls ! i) = [])
       \<and> (fst (calls ! i) = CallTerminate \<or> fst (calls ! i) = CallKill \<longrightarrow>
            ret (run pf (ctx_after (sys_wait pf os c)) calls ! i) = make_ok (EInt 0) \<and>
            trace (run pf (ctx_after (sys_wait pf os c)) calls ! i) = [])"
proof -
  note rec = reap_records [OF assms(1-3)]
  note later = run_reaped [OF rec(1) assms(4), of pf]
  show ?thesis
    using later rec(1) rec(3) by (simp add: rec(2))
qed

text \<open>Witness for C3: the sample handle is reaped after its child was killed by signal 9;
  then kill, close and wait are called while \<^verbatim>\<open>kill\<close>, \<^verbatim>\<open>close\<close> and \<^verbatim>\<open>waitpid\<close> would
  all fail. The kill (call 0) and the wait (call 2) never reach the system.\<close>

theorem reaped_is_final_witness:
  "pid ctx0 \<noteq> CMD_EXIT \<and> waitpid_ret reap9 = pid ctx0
   \<and> WIFSIGNALED linux (waitpid_status reap9)
   \<and> ret (sys_wait linux reap9 ctx0) = make_ok (ETuple2 ATOM_SIGNALED (EInt 9))
   \<and> ret (run linux (ctx_after (sys_wait linux reap9 ctx0))
         [(CallKill, hostile), (CallClose 0, hostile), (CallWait, hostile)] ! 2)
       = make_ok (ETuple2 ATOM_SIGNALED (EInt 9))
   \<and> trace (run linux (ctx_after (sys_wait linux reap9 ctx0))
         [(CallKill, hostile), (CallClose 0, hostile), (CallWait, hostile)] ! 2) = []
   \<and> ret (run linux (ctx_after (sys_wait linux reap9 ctx0))
         [(CallKill, hostile), (CallClose 0, hostile), (CallWait, hostile)] ! 0) = make_ok (EInt 0)
   \<and> trace (run linux (ctx_after (sys_wait linux reap9 ctx0))
         [(CallKill, hostile), (CallClose 0, hostile), (CallWait, hostile)] ! 0) = []"
proof -
  have h1: "pid ctx0 \<noteq> CMD_EXIT"
    by (simp add: ctx0_def CMD_EXIT_def)
  have h2: "waitpid_ret reap9 = pid ctx0"
    by (simp add: reap9_def ctx0_def reply0_def)
  have sg: "WIFSIGNALED linux (waitpid_status reap9)"
    by (simp add: reap9_def linux_def reply0_def)
  have ne: "\<not> WIFEXITED linux (waitpid_status reap9)"
    by (simp add: reap9_def linux_def reply0_def)
  have ts: "WTERMSIG linux (waitpid_status reap9) = 9"
    by (simp add: reap9_def linux_def reply0_def)
  have h3: "WIFEXITED linux (waitpid_status reap9) \<or> WIFSIGNALED linux (waitpid_status reap9)
         \<or> WIFSTOPPED linux (waitpid_status reap9)"
    using sg by simp
  have l2: "(2::nat) < length [(CallKill, hostile), (CallClose 0, hostile), (CallWait, hostile)]"
    by simp
  have l0: "(0::nat) < length [(CallKill, hostile), (CallClose 0, hostile), (CallWait, hostile)]"
    by simp
  show ?thesis
    using h1 h2 sg ne ts reaped_is_final [OF h1 h2 h3 l2] reaped_is_final [OF h1 h2 h3 l0]
    by simp
qed

subsection \<open>Writing\<close>

text \<open>
  C4, as stated: a write that the system accepts in part (\<open>0 < n < len\<close>) returns
  success with the count \<open>n\<close>. Counterexample: one of three bytes is written and
  \<^verbatim>\<open>enif_select\<close> then fails (a negative return); the call returns
  \<open>{error, -2147483640}\<close>, not \<open>{ok, 1}\<close>.
\<close>

theorem partial_write_registration_failure:
  "cmd_input_fd ctx0 \<noteq> PIPE_CLOSED \<and> (0::int) < 1 \<and> (1::int) < int (length [1, 2, 3 :: 8 word])
   \<and> ret (sys_write linux (reply0\<lparr>write_ret := 1, select_ret := - 2147483640\<rparr>) ctx0
        (IsBinary [1, 2, 3])) = make_error (EInt (- 2147483640))
   \<and> ret (sys_write linux (reply0\<lparr>write_ret := 1, select_ret := - 2147483640\<rparr>) ctx0
        (IsBinary [1, 2, 3])) \<noteq> make_ok (EInt 1)"
  by (simp add: op_defs consts_defs linux_def ctx0_def reply0_def atom_defs)

text \<open>
  C4, amended: on an open input direction with a non-empty payload, when the single
  \<^verbatim>\<open>write\<close> consumes \<open>n\<close> bytes with \<open>0 < n < len\<close>, the call requests a write-readiness
  registration on the input descriptor, and returns success with the count \<open>n\<close> if
  the registration returns 0, and otherwise an error that carries the value the
  registration returned. When \<open>n = len\<close> it returns success with the full count and
  requests no registration: the \<^verbatim>\<open>write\<close> is the only call it makes.
\<close>

theorem partial_write_registers:
  assumes "cmd_input_fd c \<noteq> PIPE_CLOSED" and "bytes \<noteq> []" and "write_ret os = n"
  shows "(0 < n \<and> n < int (length bytes) \<longrightarrow>
            trace (sys_write pf os c (IsBinary bytes)) =
              SysWrite (cmd_input_fd c) (length bytes) #
              Select (cmd_input_fd c) ERL_NIF_SELECT_WRITE write_resource #
              (if select_ret os = 0 then [] else [Perror ''select_write()'']) \<and>
            ret (sys_write pf os c (IsBinary bytes)) =
              (if select_ret os = 0 then make_ok (EInt n)
               else make_error (EInt (select_ret os))))
         \<and> (n = int (length bytes) \<longrightarrow>
            ret (sys_write pf os c (IsBinary bytes)) = make_ok (EInt n) \<and>
            trace (sys_write pf os c (IsBinary bytes)) =
              [SysWrite (cmd_input_fd c) (length bytes)])"
  using assms
  by (simp add: sys_write_def select_write_def returning_def Let_def)

text \<open>Witness for C4 (amended): one of three bytes written, then all three.\<close>

theorem partial_write_registers_witness:
  "cmd_input_fd ctx0 \<noteq> PIPE_CLOSED \<and> [1, 2, 3 :: 8 word] \<noteq> []
   \<and> write_ret (reply0\<lparr>write_ret := 1\<rparr>) = 1 \<and> (0::int) < 1
   \<and> (1::int) < int (length [1, 2, 3 :: 8 word])
   \<and> ret (sys_write linux (reply0\<lparr>write_ret := 1\<rparr>) ctx0 (IsBinary [1, 2, 3])) = make_ok (EInt 1)
   \<and> trace (sys_write linux (reply0\<lparr>write_ret := 1\<rparr>) ctx0 (IsBinary [1, 2, 3])) =
       [SysWrite 7 3, Select 7 ERL_NIF_SELECT_WRITE write_resource]
   \<and> write_ret reply0 = int (length [1, 2, 3 :: 8 word])
   \<and> ret (sys_write linux reply0 ctx0 (IsBinary [1, 2, 3])) = make_ok (EInt 3)
   \<and> trace (sys_write linux reply0 ctx0 (IsBinary [1, 2, 3])) = [SysWrite 7 3]"
proof -
  have h1: "cmd_input_fd ctx0 \<noteq> PIPE_CLOSED"
    by (simp add: ctx0_def PIPE_CLOSED_def)
  have h2: "[1, 2, 3 :: 8 word] \<noteq> []"
    by simp
  have h3: "write_ret (reply0\<lparr>write_ret := 1\<rparr>) = 1"
    by simp
  have h4: "write_ret reply0 = 3"
    by (simp add: reply0_def)
  have s: "select_ret (reply0\<lparr>write_ret := 1\<rparr>) = 0"
    by (simp add: reply0_def)
  show ?thesis
    using h1 h2 h3 h4 s partial_write_registers [OF h1 h2 h3, of linux]
      partial_write_registers [OF h1 h2 h4, of linux]
    by (simp add: ctx0_def)
qed

subsection \<open>Transient failures\<close>

text \<open>
  C5, as stated: a read or write whose syscall fails with \<^verbatim>\<open>EAGAIN\<close> returns the
  transient \<open>{error, eagain}\<close>. Counterexample: the syscall fails with \<^verbatim>\<open>EAGAIN\<close> (11)
  and \<^verbatim>\<open>enif_select\<close> then fails; both \<^verbatim>\<open>sys_write\<close> and \<^verbatim>\<open>sys_read\<close> return
  \<open>{error, -2147483640}\<close>, not \<open>{error, eagain}\<close>.
\<close>

theorem would_block_registration_failure:
  "write_ret (reply0\<lparr>write_ret := - 1, io_errno := 11, select_ret := - 2147483640\<rparr>) < 0
   \<and> io_errno (reply0\<lparr>write_ret := - 1, io_errno := 11, select_ret := - 2147483640\<rparr>)
       = EAGAIN linux
   \<and> ret (sys_write linux (reply0\<lparr>write_ret := - 1, io_errno := 11, select_ret := - 2147483640\<rparr>)
        ctx0 (IsBinary [1, 2, 3])) = make_error (EInt (- 2147483640))
   \<and> ret (sys_write linux (reply0\<lparr>write_ret := - 1, io_errno := 11, select_ret := - 2147483640\<rparr>)
        ctx0 (IsBinary [1, 2, 3])) \<noteq> make_error ATOM_EAGAIN
   \<and> ret (sys_read linux (reply0\<lparr>read_ret := - 1, io_errno := 11, select_ret := - 2147483640\<rparr>)
        ctx0 100) = make_error (EInt (- 2147483640))
   \<and> ret (sys_read linux (reply0\<lparr>read_ret := - 1, io_errno := 11, select_ret := - 2147483640\<rparr>)
        ctx0 100) \<noteq> make_error ATOM_EAGAIN"
  by (simp add: op_defs consts_defs linux_def ctx0_def reply0_def atom_defs)

text \<open>
  C5, amended: when the single syscall of a write (open input direction, non-empty
  payload) or of a read (open output direction) fails, then, if its errno is
  \<^verbatim>\<open>EAGAIN\<close> or \<^verbatim>\<open>EWOULDBLOCK\<close>, the call requests exactly one readiness registration,
  for its own direction (write-ready on the input descriptor, read-ready on the output
  descriptor), and returns \<open>{error, eagain}\<close> if the registration returns 0 and
  otherwise an error that carries the value the registration returned; for any other
  errno it returns \<open>{error, errno}\<close> and requests no registration.
\<close>

theorem would_block_registers:
  "(cmd_input_fd c \<noteq> PIPE_CLOSED \<and> bytes \<noteq> [] \<and> write_ret os < 0 \<longrightarrow>
      (if io_errno os = EAGAIN pf \<or> io_errno os = EWOULDBLOCK pf
       then filter is_registration (trace (sys_write pf os c (IsBinary bytes))) =
              [Select (cmd_input_fd c) ERL_NIF_SELECT_WRITE write_resource] \<and>
            ret (sys_write pf os c (IsBinary bytes)) =
              (if select_ret os = 0 then make_error ATOM_EAGAIN
               else make_error (EInt (select_ret os)))
       else filter is_registration (trace (sys_write pf os c (IsBinary bytes))) = [] \<and>
            ret (sys_write pf os c (IsBinary bytes)) = make_error (EInt (io_errno os))))
   \<and> (cmd_output_fd c \<noteq> PIPE_CLOSED \<and> read_ret os < 0 \<longrightarrow>
      (if io_errno os = EAGAIN pf \<or> io_errno os = EWOULDBLOCK pf
       then filter is_registration (trace (sys_read pf os c request)) =
              [Select (cmd_output_fd c) ERL_NIF_SELECT_READ read_resource] \<and>
            ret (sys_read pf os c request) =
              (if select_ret os = 0 then make_error ATOM_EAGAIN
               else make_error (EInt (select_ret os)))
       else filter is_registration (trace (sys_read pf os c request)) = [] \<and>
            ret (sys_read pf os c request) = make_error (EInt (io_errno os))))"
  by (simp add: sys_write_def sys_read_def select_write_def select_read_def returning_def Let_def)

text \<open>Witness for C5 (amended): a write and a read that fail with \<^verbatim>\<open>EAGAIN\<close> (11), and a
  write and a read that fail with \<^verbatim>\<open>EPIPE\<close> (32).\<close>

theorem would_block_registers_witness:
  "cmd_input_fd ctx0 \<noteq> PIPE_CLOSED \<and> cmd_output_fd ctx0 \<noteq> PIPE_CLOSED
   \<and> [1, 2, 3 :: 8 word] \<noteq> [] \<and> write_ret busy < 0 \<and> read_ret busy < 0
   \<and> io_errno busy = EAGAIN linux
   \<and> ret (sys_write linux busy ctx0 (IsBinary [1, 2, 3])) = make_error ATOM_EAGAIN
   \<and> filter is_registration (trace (sys_write linux busy ctx0 (IsBinary [1, 2, 3]))) =
       [Select 7 ERL_NIF_SELECT_WRITE write_resource]
   \<and> ret (sys_read linux busy ctx0 100) = make_error ATOM_EAGAIN
   \<and> filter is_registration (trace (sys_read linux busy ctx0 100)) =
       [Select 8 ERL_NIF_SELECT_READ read_resource]
   \<and> write_ret broken < 0 \<and> read_ret broken < 0
   \<and> ret (sys_write linux broken ctx0 (IsBinary [1, 2, 3])) = make_error (EInt 32)
   \<and> filter is_registration (trace (sys_write linux broken ctx0 (IsBinary [1, 2, 3]))) = []
   \<and> ret (sys_read linux broken ctx0 100) = make_error (EInt 32)
   \<and> filter is_registration (trace (sys_read linux broken ctx0 100)) = []"
proof -
  have open_fds: "cmd_input_fd ctx0 \<noteq> PIPE_CLOSED" "cmd_output_fd ctx0 \<noteq> PIPE_CLOSED"
    by (simp_all add: ctx0_def PIPE_CLOSED_def)
  have fds: "cmd_input_fd ctx0 = 7" "cmd_output_fd ctx0 = 8"
    by (simp_all add: ctx0_def)
  have b: "write_ret busy < 0" "read_ret busy < 0" "io_errno busy = 11" "select_ret busy = 0"
    by (simp_all add: busy_def reply0_def)
  have k: "write_ret broken < 0" "read_ret broken < 0" "io_errno broken = 32"
    by (simp_all add: broken_def reply0_def)
  have pf: "EAGAIN linux = 11" "EWOULDBLOCK linux = 11"
    by (simp_all add: linux_def)
  show ?thesis
    using open_fds b k pf
      would_block_registers [of ctx0 "[1, 2, 3]" busy linux 100]
      would_block_registers [of ctx0 "[1, 2, 3]" broken linux 100]
    by (simp add: fds)
qed

subsection \<open>Rejection before any syscall\<close>

text \<open>
  C6. A write on a handle whose input direction is closed returns \<open>{error, closed_pipe}\<close>
  and issues no call, whatever the payload; a write of an empty binary issues no call
  either, and on an open input direction it is rejected with \<^verbatim>\<open>badarg\<close>; a read on a
  handle whose output direction is closed returns \<open>{error, closed_pipe}\<close> and issues no
  call, whatever the requested size.
\<close>

theorem closed_or_empty_rejected:
  "(cmd_input_fd c = PIPE_CLOSED \<longrightarrow>
      ret (sys_write pf os c arg) = make_error ATOM_PIPE_CLOSED \<and>
      trace (sys_write pf os c arg) = [])
   \<and> (cmd_input_fd c \<noteq> PIPE_CLOSED \<longrightarrow>
      ret (sys_write pf os c (IsBinary [])) = EBadarg \<and>
      badarg_raised (sys_write pf os c (IsBinary [])))
   \<and> trace (sys_write pf os c (IsBinary [])) = []
   \<and> (cmd_output_fd c = PIPE_CLOSED \<longrightarrow>
      ret (sys_read pf os c request) = make_error ATOM_PIPE_CLOSED \<and>
      trace (sys_read pf os c request) = [])"
  by (simp add: sys_write_def sys_read_def returning_def return_badarg_def)

text \<open>Witness for C6: the sample handle with both directions closed, and the sample
  handle itself for the empty payload.\<close>

theorem closed_or_empty_rejected_witness:
  "cmd_input_fd (ctx0\<lparr>cmd_input_fd := PIPE_CLOSED, cmd_output_fd := PIPE_CLOSED\<rparr>) = PIPE_CLOSED
   \<and> cmd_output_fd (ctx0\<lparr>cmd_input_fd := PIPE_CLOSED, cmd_output_fd := PIPE_CLOSED\<rparr>) = PIPE_CLOSED
   \<and> ret (sys_write linux reply0 (ctx0\<lparr>cmd_input_fd := PIPE_CLOSED, cmd_output_fd := PIPE_CLOSED\<rparr>)
        (IsBinary [1, 2, 3])) = make_error ATOM_PIPE_CLOSED
   \<and> trace (sys_write linux reply0 (ctx0\<lparr>cmd_input_fd := PIPE_CLOSED, cmd_output_fd := PIPE_CLOSED\<rparr>)
        (IsBinary [1, 2, 3])) = []
   \<and> ret (sys_read linux reply0 (ctx0\<lparr>cmd_input_fd := PIPE_CLOSED, cmd_output_fd := PIPE_CLOSED\<rparr>)
        100) = make_error ATOM_PIPE_CLOSED
   \<and> trace (sys_read linux reply0 (ctx0\<lparr>cmd_input_fd := PIPE_CLOSED, cmd_output_fd := PIPE_CLOSED\<rparr>)
        100) = []
   \<and> cmd_input_fd ctx0 \<noteq> PIPE_CLOSED
   \<and> ret (sys_write linux reply0 ctx0 (IsBinary [])) = EBadarg
   \<and> trace (sys_write linux reply0 ctx0 (IsBinary [])) = []"
proof -
  have h: "cmd_input_fd ctx0 \<noteq> PIPE_CLOSED"
    by (simp add: ctx0_def PIPE_CLOSED_def)
  show ?thesis
    using h
      closed_or_empty_rejected [of "ctx0\<lparr>cmd_input_fd := PIPE_CLOSED, cmd_output_fd := PIPE_CLOSED\<rparr>"
        linux reply0 "IsBinary [1, 2, 3]" 100]
      closed_or_empty_rejected [of ctx0 linux reply0 "IsBinary [1, 2, 3]" 100]
    by simp
qed

subsection \<open>Unbuffered reads\<close>

text \<open>
  C7, as stated: a read with the unbuffered sentinel never requests a readiness
  registration and returns success. Counterexample: the \<^verbatim>\<open>read\<close> of an unbuffered call
  fails with \<^verbatim>\<open>EAGAIN\<close> (11); the call requests a read-readiness registration and
  returns \<open>{error, eagain}\<close>.
\<close>

theorem unbuffered_read_eagain_registers:
  "trace (sys_read linux (reply0\<lparr>read_ret := - 1, io_errno := 11\<rparr>) ctx0 UNBUFFERED_READ) =
     [BufAlloc 65535, SysRead 8 65535, Select 8 ERL_NIF_SELECT_READ read_resource]
   \<and> filter is_registration
       (trace (sys_read linux (reply0\<lparr>read_ret := - 1, io_errno := 11\<rparr>) ctx0 UNBUFFERED_READ))
       \<noteq> []
   \<and> ret (sys_read linux (reply0\<lparr>read_ret := - 1, io_errno := 11\<rparr>) ctx0 UNBUFFERED_READ) =
       make_error ATOM_EAGAIN"
  by (simp add: op_defs consts_defs linux_def ctx0_def reply0_def atom_defs)

text \<open>
  C7, amended: a read with the unbuffered sentinel on an open output direction whose
  \<^verbatim>\<open>read\<close> succeeds (returns a count \<open>\<ge> 0\<close>, also one below the cap) requests no
  readiness registration: it declares the buffer, issues the one \<^verbatim>\<open>read\<close>, and returns
  success with the bytes read.
\<close>

theorem unbuffered_read_no_registration:
  assumes "cmd_output_fd c \<noteq> PIPE_CLOSED" and "0 \<le> read_ret os"
  shows "filter is_registration (trace (sys_read pf os c UNBUFFERED_READ)) = []
         \<and> trace (sys_read pf os c UNBUFFERED_READ) =
             [BufAlloc PIPE_BUF_SIZE, SysRead (cmd_output_fd c) PIPE_BUF_SIZE]
         \<and> ret (sys_read pf os c UNBUFFERED_READ) =
             make_ok (EBinary (take (nat (read_ret os)) (read_buf os)))
         \<and> \<not> badarg_raised (sys_read pf os c UNBUFFERED_READ)"
  using assms
  by (simp add: sys_read_def returning_def read_size_def read_badarg_def Let_def)

text \<open>Witness for C7 (amended): an unbuffered read that gets 3 bytes, far below the cap.\<close>

theorem unbuffered_read_no_registration_witness:
  "cmd_output_fd ctx0 \<noteq> PIPE_CLOSED \<and> 0 \<le> read_ret reply0 \<and> read_ret reply0 < PIPE_BUF_SIZE
   \<and> filter is_registration (trace (sys_read linux reply0 ctx0 UNBUFFERED_READ)) = []
   \<and> ret (sys_read linux reply0 ctx0 UNBUFFERED_READ) = make_ok (EBinary [1, 2, 3])"
proof -
  have h1: "cmd_output_fd ctx0 \<noteq> PIPE_CLOSED"
    by (simp add: ctx0_def PIPE_CLOSED_def)
  have h2: "0 \<le> read_ret reply0"
    by (simp add: reply0_def)
  have v: "read_ret reply0 = 3" "read_buf reply0 = [1, 2, 3]"
    by (simp_all add: reply0_def)
  show ?thesis
    using h1 h2 unbuffered_read_no_registration [OF h1 h2, of linux]
    by (simp add: v PIPE_BUF_SIZE_def)
qed

subsection \<open>Closing\<close>

text \<open>
  C8, as stated: closing a direction twice succeeds both times and leaves the handle
  as a single close does. Counterexample: the \<^verbatim>\<open>close\<close> syscall of the first call
  fails; the call returns an error (with the value \<^verbatim>\<open>errno\<close> has after \<^verbatim>\<open>perror\<close>, here
  22) and does not mark the direction closed, so the second call, whose \<^verbatim>\<open>close\<close>
  succeeds, marks it, and the handle after two calls differs from the handle after
  one.
\<close>

theorem close_failure_not_idempotent:
  "ret (sys_close linux (reply0\<lparr>close_ret := - 1, errno_after_perror := 22\<rparr>) ctx0 0)
     = make_error (EInt 22)
   \<and> ret (sys_close linux (reply0\<lparr>close_ret := - 1, errno_after_perror := 22\<rparr>) ctx0 0)
     \<noteq> ATOM_OK
   \<and> ctx_after (sys_close linux reply0
        (ctx_after (sys_close linux (reply0\<lparr>close_ret := - 1, errno_after_perror := 22\<rparr>) ctx0 0)) 0)
      \<noteq> ctx_after (sys_close linux (reply0\<lparr>close_ret := - 1, errno_after_perror := 22\<rparr>) ctx0 0)"
  by (simp add: op_defs consts_defs linux_def ctx0_def reply0_def atom_defs)

text \<open>
  C8, amended: for a direction in {input (0), output (1)}, closing a direction that is
  already closed returns \<open>ok\<close>, issues no call and leaves the handle unchanged; and
  when the first close finds the direction already closed or its \<^verbatim>\<open>close\<close> syscall
  succeeds, the first close returns \<open>ok\<close> and marks the direction closed, and a second
  close of the same direction returns \<open>ok\<close>, issues no call, and leaves the handle in
  the state the first close left it, whatever the system would reply.
\<close>

theorem close_twice:
  assumes "kind = 0 \<or> kind = 1"
  shows "((if kind = 0 then cmd_input_fd c else cmd_output_fd c) = PIPE_CLOSED \<longrightarrow>
            sys_close pf os1 c kind = returning ATOM_OK c [])
         \<and> ((if kind = 0 then cmd_input_fd c else cmd_output_fd c) = PIPE_CLOSED
              \<or> close_ret os1 = 0 \<longrightarrow>
            ret (sys_close pf os1 c kind) = ATOM_OK \<and>
            (if kind = 0 then cmd_input_fd else cmd_output_fd)
              (ctx_after (sys_close pf os1 c kind)) = PIPE_CLOSED \<and>
            ret (sys_close pf os2 (ctx_after (sys_close pf os1 c kind)) kind) = ATOM_OK \<and>
            trace (sys_close pf os2 (ctx_after (sys_close pf os1 c kind)) kind) = [] \<and>
            ctx_after (sys_close pf os2 (ctx_after (sys_close pf os1 c kind)) kind) =
              ctx_after (sys_close pf os1 c kind))"
  using assms
  by (auto simp add: sys_close_def returning_def Let_def)

text \<open>Witness for C8 (amended): the input direction of the sample handle is closed
  twice; the second time \<^verbatim>\<open>close\<close> would fail, and is not called.\<close>

theorem close_twice_witness:
  "((0::int) = 0 \<or> (0::int) = 1) \<and> close_ret reply0 = 0
   \<and> ret (sys_close linux reply0 ctx0 0) = ATOM_OK
   \<and> cmd_input_fd (ctx_after (sys_close linux reply0 ctx0 0)) = PIPE_CLOSED
   \<and> sys_close linux hostile (ctx_after (sys_close linux reply0 ctx0 0)) 0 =
       returning ATOM_OK (ctx_after (sys_close linux reply0 ctx0 0)) []"
proof -
  have k: "(0::int) = 0 \<or> (0::int) = 1"
    by simp
  have ok: "close_ret reply0 = 0"
    by (simp add: reply0_def)
  have closed: "cmd_input_fd (ctx_after (sys_close linux reply0 ctx0 0)) = PIPE_CLOSED"
    using ok close_twice [OF k, of ctx0 linux reply0 hostile] by simp
  show ?thesis
    using k ok closed
      close_twice [OF k, of ctx0 linux reply0 hostile]
      close_twice [OF k, of "ctx_after (sys_close linux reply0 ctx0 0)" linux hostile hostile]
    by simp
qed

text \<open>
  C9. Whatever the system replies and whatever the direction argument,
  \<^verbatim>\<open>sys_close\<close> leaves the pid, the exit type and the exit status as they were; closing
  the input direction (0) leaves the output descriptor as it was and closing the output
  direction (1) leaves the input descriptor as it was; and the call issues no \<^verbatim>\<open>kill\<close>.
  The calls it does issue act on the closed direction alone: closing the input
  direction issues nothing but the deregistration of the input descriptor with the
  write resource, the \<^verbatim>\<open>close\<close> of the input descriptor and the \<^verbatim>\<open>perror\<close> of a failed
  close; closing the output direction issues nothing but the deregistration of the
  output descriptor with the read resource, the \<^verbatim>\<open>close\<close> of the output descriptor and
  that \<^verbatim>\<open>perror\<close>; any other direction argument issues nothing and changes nothing.
\<close>

theorem close_frame:
  "pid (ctx_after (sys_close pf os c kind)) = pid c
   \<and> exit_type (ctx_after (sys_close pf os c kind)) = exit_type c
   \<and> exit_status (ctx_after (sys_close pf os c kind)) = exit_status c
   \<and> (kind = 0 \<longrightarrow> cmd_output_fd (ctx_after (sys_close pf os c kind)) = cmd_output_fd c)
   \<and> (kind = 1 \<longrightarrow> cmd_input_fd (ctx_after (sys_close pf os c kind)) = cmd_input_fd c)
   \<and> filter is_kill (trace (sys_close pf os c kind)) = []
   \<and> (kind = 0 \<longrightarrow>
        set (trace (sys_close pf os c kind)) \<subseteq>
          {Select (cmd_input_fd c) ERL_NIF_SELECT_STOP write_resource,
           SysClose (cmd_input_fd c), Perror ''cmd_input_fd close()''})
   \<and> (kind = 1 \<longrightarrow>
        set (trace (sys_close pf os c kind)) \<subseteq>
          {Select (cmd_output_fd c) ERL_NIF_SELECT_STOP read_resource,
           SysClose (cmd_output_fd c), Perror ''cmd_output_fd close()''})
   \<and> (kind \<noteq> 0 \<and> kind \<noteq> 1 \<longrightarrow>
        trace (sys_close pf os c kind) = [] \<and> ctx_after (sys_close pf os c kind) = c)"
  by (simp add: sys_close_def returning_def return_badarg_def Let_def)

text \<open>Witness for C9: each direction of the sample handle (input descriptor 7, output
  descriptor 8) is closed; the other descriptor and the pid are those of the sample
  handle, and no call names the other descriptor.\<close>

theorem close_frame_witness:
  "cmd_output_fd (ctx_after (sys_close linux reply0 ctx0 0)) = 8
   \<and> pid (ctx_after (sys_close linux reply0 ctx0 0)) = 4242
   \<and> cmd_input_fd (ctx_after (sys_close linux reply0 ctx0 1)) = 7
   \<and> pid (ctx_after (sys_close linux reply0 ctx0 1)) = 4242
   \<and> filter is_kill (trace (sys_close linux reply0 ctx0 0)) = []
   \<and> filter is_kill (trace (sys_close linux reply0 ctx0 1)) = []
   \<and> set (trace (sys_close linux reply0 ctx0 0)) \<subseteq>
       {Select 7 ERL_NIF_SELECT_STOP write_resource, SysClose 7, Perror ''cmd_input_fd close()''}
   \<and> set (trace (sys_close linux reply0 ctx0 1)) \<subseteq>
       {Select 8 ERL_NIF_SELECT_STOP read_resource, SysClose 8, Perror ''cmd_output_fd close()''}
   \<and> SysClose 8 \<notin> set (trace (sys_close linux reply0 ctx0 0))
   \<and> SysClose 7 \<notin> set (trace (sys_close linux reply0 ctx0 1))"
proof -
  have fds: "cmd_input_fd ctx0 = 7" "cmd_output_fd ctx0 = 8" "pid ctx0 = 4242"
    by (simp_all add: ctx0_def)
  have k: "(0::int) = 0" "(1::int) = 1"
    by simp_all
  show ?thesis
    using k close_frame [of linux reply0 ctx0 0] close_frame [of linux reply0 ctx0 1]
    by (auto simp add: fds)
qed

subsection \<open>A read of non-positive size\<close>

text \<open>
  C10. The claim: a read whose requested size is below 1 and is not the unbuffered
  sentinel performs no \<^verbatim>\<open>read\<close> syscall and never declares the buffer with a
  non-positive length. The source calls \<^verbatim>\<open>enif_make_badarg\<close> in that branch but does not
  return. Evaluated on the sample handle: a request of 0 declares \<^verbatim>\<open>buf[0]\<close> and issues
  \<^verbatim>\<open>read(8, buf, 0)\<close>, and the function returns \<open>{ok, <<>>}\<close> with the exception flag
  set; a request of \<open>-5\<close> declares \<^verbatim>\<open>buf[-5]\<close> and issues \<^verbatim>\<open>read(8, buf, -5)\<close>.
\<close>

theorem read_nonpositive_size_reaches_syscall:
  "cmd_output_fd ctx0 \<noteq> PIPE_CLOSED \<and> (0::int) < 1 \<and> (0::int) \<noteq> UNBUFFERED_READ
   \<and> trace (sys_read linux (reply0\<lparr>read_ret := 0\<rparr>) ctx0 0) = [BufAlloc 0, SysRead 8 0]
   \<and> ret (sys_read linux (reply0\<lparr>read_ret := 0\<rparr>) ctx0 0) = make_ok (EBinary [])
   \<and> badarg_raised (sys_read linux (reply0\<lparr>read_ret := 0\<rparr>) ctx0 0)
   \<and> trace (sys_read linux (reply0\<lparr>read_ret := - 1, io_errno := 14\<rparr>) ctx0 (- 5)) =
       [BufAlloc (- 5), SysRead 8 (- 5), Perror ''read()'']"
  by (simp add: op_defs consts_defs linux_def ctx0_def reply0_def atom_defs)

end
